theory Spec2Isabelle
  imports Main
begin

section \<open>Python values seen by the annotation resolver\<close>

text \<open>
  The module \<^verbatim>\<open>_bentoml_sdk/_pydantic.py\<close> receives a source object of type
  \<^verbatim>\<open>Any\<close> and observes it in five ways only: it reads \<^verbatim>\<open>__module__\<close>, hashes it,
  tests its truth value, compares it by identity or equality with library classes, and hands it to
  \<^verbatim>\<open>issubclass\<close>. The datatype below keeps what these observations need.
  A class carries its module-qualified name and the names of its proper ancestors; a
  parametrized generic \<^verbatim>\<open>origin[args]\<close> carries its origin and arguments; every other
  object carries its \<^verbatim>\<open>__module__\<close> attribute, whether it is hashable and whether
  it is truthy. The attribute is absent (an instance of a built-in type such as a list), holds
  a string, or holds None (a method of a built-in type such as \<^verbatim>\<open>str.join\<close> bound
  to a string).
\<close>

datatype exn = TypeError | IndexError | AttributeError | ValueError string

datatype attr = Absent | NoneValue | Str string

type_synonym qualname = "string \<times> string"

datatype pyobj =
    PyNone
  | PyClass qualname "qualname list"
  | PyAlias pyobj "pyobj list"
  | PyOther attr bool bool

text \<open>The \<^verbatim>\<open>__module__\<close> attribute of an object: None has none, a class holds the
  name of its module, a parametrized generic forwards the attribute to its origin.\<close>

fun py_module :: "pyobj \<Rightarrow> attr" where
  "py_module PyNone = Absent"
| "py_module (PyClass qn anc) = Str (fst qn)"
| "py_module (PyAlias orig args) = py_module orig"
| "py_module (PyOther m h t) = m"

text \<open>\<^verbatim>\<open>hash(obj)\<close> succeeds (True) or raises TypeError (False).\<close>

fun hashable :: "pyobj \<Rightarrow> bool" where
  "hashable PyNone = True"
| "hashable (PyClass qn anc) = True"
| "hashable (PyAlias orig args) = (hashable orig \<and> list_all hashable args)"
| "hashable (PyOther m h t) = h"

text \<open>The truth value used by \<^verbatim>\<open>get_origin(source) or source\<close>.\<close>

fun truthy :: "pyobj \<Rightarrow> bool" where
  "truthy PyNone = False"
| "truthy (PyOther m h t) = t"
| "truthy x = True"

text \<open>\<^verbatim>\<open>issubclass(x, c)\<close> raises TypeError unless its first argument is a class.\<close>

fun issubclass :: "pyobj \<Rightarrow> pyobj \<Rightarrow> exn + bool" where
  "issubclass (PyClass qn anc) (PyClass qn' anc') = Inr (qn = qn' \<or> qn' \<in> set anc)"
| "issubclass x c = Inl TypeError"

text \<open>\<^verbatim>\<open>str.startswith\<close>.\<close>

definition startswith :: "string \<Rightarrow> string \<Rightarrow> bool" where
  "startswith s p = (take (length p) s = p)"

text \<open>
  \<^verbatim>\<open>getattr(source, "__module__", "").startswith(p)\<close>, the first test of every family
  handler: an absent attribute gives the default \<^verbatim>\<open>""\<close>; an attribute that holds
  None is returned as it is, and None has no \<^verbatim>\<open>startswith\<close>, which raises
  AttributeError.
\<close>

definition module_startswith :: "pyobj \<Rightarrow> string \<Rightarrow> exn + bool" where
  "module_startswith source p =
     (case py_module source of
        Absent \<Rightarrow> Inr (startswith [] p)
      | NoneValue \<Rightarrow> Inl AttributeError
      | Str m \<Rightarrow> Inr (startswith m p))"

subsection \<open>Library classes the module refers to\<close>

definition np_ndarray :: pyobj where
  "np_ndarray = PyClass (''numpy'', ''ndarray'') []"

definition torch_Tensor :: pyobj where
  "torch_Tensor = PyClass (''torch'', ''Tensor'') []"

definition tf_Tensor :: pyobj where
  "tf_Tensor = PyClass (''tensorflow.python.framework.tensor'', ''Tensor'') []"

definition pd_DataFrame :: pyobj where
  "pd_DataFrame = PyClass (''pandas.core.frame'', ''DataFrame'') []"

definition Image_Image :: pyobj where
  "Image_Image = PyClass (''PIL.Image'', ''Image'') []"

definition PurePath :: pyobj where
  "PurePath = PyClass (''pathlib'', ''PurePath'') []"

definition PurePosixPath :: pyobj where
  "PurePosixPath = PyClass (''pathlib'', ''PurePosixPath'') [(''pathlib'', ''PurePath'')]"

definition PureWindowsPath :: pyobj where
  "PureWindowsPath = PyClass (''pathlib'', ''PureWindowsPath'') [(''pathlib'', ''PurePath'')]"

definition Path :: pyobj where
  "Path = PyClass (''pathlib'', ''Path'') [(''pathlib'', ''PurePath'')]"

definition PosixPath :: pyobj where
  "PosixPath = PyClass (''pathlib'', ''PosixPath'')
     [(''pathlib'', ''Path''), (''pathlib'', ''PurePosixPath''), (''pathlib'', ''PurePath'')]"

definition WindowsPath :: pyobj where
  "WindowsPath = PyClass (''pathlib'', ''WindowsPath'')
     [(''pathlib'', ''Path''), (''pathlib'', ''PureWindowsPath''), (''pathlib'', ''PurePath'')]"

text \<open>The set literal of \<^verbatim>\<open>pathlib_prepare_pydantic_annotations\<close>, in its order.\<close>

definition path_types :: "pyobj list" where
  "path_types = [PurePath, PurePosixPath, PureWindowsPath, Path, PosixPath, WindowsPath]"

section \<open>Annotations and resolved schemas\<close>

text \<open>
  The annotation list is a \<^verbatim>\<open>list[Any]\<close> that holds caller annotations and, on
  return, the schema object the handler built. \<^verbatim>\<open>Shape.dimensions\<close> is a tuple of
  integers, \<^verbatim>\<open>DType.dtype\<close> and \<^verbatim>\<open>ContentType.content_type\<close> are strings,
  \<^verbatim>\<open>TensorSchema(format, dtype, shape)\<close> and \<^verbatim>\<open>FileSchema(content_type)\<close>
  take optional values. \<open>KnownMetadata\<close> stands for the metadata the validation engine itself
  understands, \<open>OtherAnnotation\<close> for anything else.
\<close>

datatype df_config = DefaultConfig | CustomConfig string

datatype annotation =
    Shape "int list"
  | DType string
  | ContentType string
  | TensorSchema string "string option" "int list option"
  | DataframeSchema df_config
  | PILImageEncoder
  | FileSchema "string option"
  | KnownMetadata string
  | OtherAnnotation string

text \<open>The \<^verbatim>\<open>isinstance\<close> tests and attribute reads of the handlers.\<close>

fun shape_of :: "annotation \<Rightarrow> int list option" where
  "shape_of (Shape dims) = Some dims"
| "shape_of a = None"

fun dtype_of :: "annotation \<Rightarrow> string option" where
  "dtype_of (DType t) = Some t"
| "dtype_of a = None"

fun content_type_of :: "annotation \<Rightarrow> string option" where
  "content_type_of (ContentType c) = Some c"
| "content_type_of a = None"

fun is_DataframeSchema :: "annotation \<Rightarrow> bool" where
  "is_DataframeSchema (DataframeSchema c) = True"
| "is_DataframeSchema a = False"

fun is_known :: "annotation \<Rightarrow> bool" where
  "is_known (KnownMetadata k) = True"
| "is_known a = False"

text \<open>
  Modelled from the spec: \<^verbatim>\<open>_known_annotated_metadata.collect_known_metadata\<close>
  belongs to the validation engine and is not among the sources. The spec describes it as the
  engine's metadata-collection utility that splits an annotation collection into the part
  known to the engine and the other part; both parts keep the input order.
\<close>

definition collect_known_metadata :: "annotation list \<Rightarrow> annotation list \<times> annotation list" where
  "collect_known_metadata annotations =
     (filter is_known annotations, filter (\<lambda>a. \<not> is_known a) annotations)"

section \<open>What the module imports from its surroundings\<close>

text \<open>
  \<^verbatim>\<open>typing_utils.get_origin\<close>, \<^verbatim>\<open>typing_utils.get_args\<close> and
  \<^verbatim>\<open>numpy.dtype(x).name\<close> are not among the sources. The handlers take them as
  parameters, so every theorem below holds for whatever these functions compute.
\<close>

record deps =
  get_origin :: "pyobj \<Rightarrow> pyobj"
  get_args :: "pyobj \<Rightarrow> pyobj list"
  np_dtype_name :: "pyobj \<Rightarrow> exn + string"

type_synonym prepared = "(pyobj \<times> annotation list) option"

type_synonym preparer = "pyobj \<Rightarrow> annotation list \<Rightarrow> exn + prepared"

section \<open>The numeric-array handler\<close>

text \<open>
  \<^verbatim>\<open>np.dtype(get_args(args[1])[0]).name if args else None\<close>: indexing a tuple out of
  range raises IndexError.
\<close>

definition element_dtype :: "deps \<Rightarrow> pyobj list \<Rightarrow> exn + string option" where
  "element_dtype D args =
     (if args = [] then Inr None
      else if length args < 2 then Inl IndexError
      else (case get_args D (args ! 1) of
              [] \<Rightarrow> Inl IndexError
            | x # xs \<Rightarrow> (case np_dtype_name D x of
                           Inl e \<Rightarrow> Inl e
                         | Inr name \<Rightarrow> Inr (Some name))))"

definition conflict_message :: "string \<Rightarrow> string \<Rightarrow> string" where
  "conflict_message d t = ''Conflicting dtype annotations: '' @ d @ '' and '' @ t"

text \<open>The \<^verbatim>\<open>for annotation in other_annotations\<close> loop, with its three locals.\<close>

fun numpy_scan :: "annotation list \<Rightarrow> string option \<Rightarrow> int list option \<Rightarrow> annotation list
    \<Rightarrow> exn + (string option \<times> int list option \<times> annotation list)" where
  "numpy_scan [] dtype shape remaining = Inr (dtype, shape, remaining)"
| "numpy_scan (Shape dims # rest) dtype shape remaining =
     numpy_scan rest dtype (Some dims) remaining"
| "numpy_scan (DType t # rest) dtype shape remaining =
     (case dtype of
        None \<Rightarrow> numpy_scan rest (Some t) shape remaining
      | Some d \<Rightarrow>
          (if d \<noteq> t then Inl (ValueError (conflict_message d t))
           else numpy_scan rest (Some t) shape remaining))"
| "numpy_scan (a # rest) dtype shape remaining =
     numpy_scan rest dtype shape (remaining @ [a])"

definition numpy_prepare_pydantic_annotations :: "deps \<Rightarrow> preparer" where
  "numpy_prepare_pydantic_annotations D source annotations =
     (case module_startswith source ''numpy'' of
        Inl e \<Rightarrow> Inl e
      | Inr False \<Rightarrow> Inr None
      | Inr True \<Rightarrow>
          (if get_origin D source \<noteq> np_ndarray then Inr None
           else (case element_dtype D (get_args D source) of
                   Inl TypeError \<Rightarrow> Inr None
                 | Inl e \<Rightarrow> Inl e
                 | Inr dtype \<Rightarrow>
                     (case numpy_scan (snd (collect_known_metadata annotations)) dtype None [] of
                        Inl e \<Rightarrow> Inl e
                      | Inr (dtype', shape, remaining) \<Rightarrow>
                          Inr (Some (source,
                            TensorSchema ''numpy-array'' dtype' shape # remaining))))))"

section \<open>The two ML-tensor handlers\<close>

text \<open>\<^verbatim>\<open>del xs[i]\<close> raises IndexError when \<open>i\<close> is out of range.\<close>

definition del_at :: "nat \<Rightarrow> 'a list \<Rightarrow> exn + 'a list" where
  "del_at i xs = (if i < length xs then Inr (take i xs @ drop (Suc i) xs) else Inl IndexError)"

text \<open>
  The loop \<^verbatim>\<open>for i, annotation in reversed(list(enumerate(remaining_annotations)))\<close>
  of the torch and tensorflow handlers (the two bodies are the same text): the first argument is
  the reversed snapshot, the last one the list being mutated.
\<close>

fun tensor_scan :: "(nat \<times> annotation) list \<Rightarrow> string option \<Rightarrow> int list option
    \<Rightarrow> annotation list \<Rightarrow> exn + (string option \<times> int list option \<times> annotation list)" where
  "tensor_scan [] dtype shape remaining = Inr (dtype, shape, remaining)"
| "tensor_scan ((i, Shape dims) # rest) dtype shape remaining =
     (case del_at i remaining of
        Inl e \<Rightarrow> Inl e
      | Inr remaining' \<Rightarrow> tensor_scan rest dtype (Some dims) remaining')"
| "tensor_scan ((i, DType t) # rest) dtype shape remaining =
     (case del_at i remaining of
        Inl e \<Rightarrow> Inl e
      | Inr remaining' \<Rightarrow> tensor_scan rest (Some t) shape remaining')"
| "tensor_scan ((i, a) # rest) dtype shape remaining = tensor_scan rest dtype shape remaining"

definition tensor_body :: "string \<Rightarrow> pyobj \<Rightarrow> annotation list \<Rightarrow> exn + prepared" where
  "tensor_body format source annotations =
     (let remaining_annotations = snd (collect_known_metadata annotations) in
      case tensor_scan (rev (enumerate 0 remaining_annotations)) None None remaining_annotations of
        Inl e \<Rightarrow> Inl e
      | Inr (dtype, shape, remaining) \<Rightarrow>
          Inr (Some (source, TensorSchema format dtype shape # remaining)))"

definition torch_prepare_pydantic_annotations :: "deps \<Rightarrow> preparer" where
  "torch_prepare_pydantic_annotations D source annotations =
     (case module_startswith source ''torch'' of
        Inl e \<Rightarrow> Inl e
      | Inr False \<Rightarrow> Inr None
      | Inr True \<Rightarrow>
          (case issubclass (get_origin D source) torch_Tensor of
             Inl e \<Rightarrow> Inl e
           | Inr False \<Rightarrow> Inr None
           | Inr True \<Rightarrow> tensor_body ''torch-tensor'' source annotations))"

definition tf_prepare_pydantic_annotations :: "deps \<Rightarrow> preparer" where
  "tf_prepare_pydantic_annotations D source annotations =
     (case module_startswith source ''tensorflow'' of
        Inl e \<Rightarrow> Inl e
      | Inr False \<Rightarrow> Inr None
      | Inr True \<Rightarrow>
          (case issubclass (get_origin D source) tf_Tensor of
             Inl e \<Rightarrow> Inl e
           | Inr False \<Rightarrow> Inr None
           | Inr True \<Rightarrow> tensor_body ''tf-tensor'' source annotations))"

section \<open>The dataframe and image handlers\<close>

definition pandas_prepare_pydantic_annotations :: "deps \<Rightarrow> preparer" where
  "pandas_prepare_pydantic_annotations D source annotations =
     (case module_startswith source ''pandas'' of
        Inl e \<Rightarrow> Inl e
      | Inr False \<Rightarrow> Inr None
      | Inr True \<Rightarrow>
          (let origin = get_origin D source in
           case issubclass origin pd_DataFrame of
             Inl e \<Rightarrow> Inl e
           | Inr False \<Rightarrow> Inr None
           | Inr True \<Rightarrow>
               (let remaining_annotations = snd (collect_known_metadata annotations) in
                Inr (Some (origin,
                  if \<not> list_ex is_DataframeSchema remaining_annotations
                  then DataframeSchema DefaultConfig # remaining_annotations
                  else remaining_annotations)))))"

definition pil_prepare_pydantic_annotations :: "deps \<Rightarrow> preparer" where
  "pil_prepare_pydantic_annotations D source annotations =
     (case module_startswith source ''PIL.'' of
        Inl e \<Rightarrow> Inl e
      | Inr False \<Rightarrow> Inr None
      | Inr True \<Rightarrow>
          (let origin = (if truthy (get_origin D source) then get_origin D source else source) in
           case issubclass origin Image_Image of
             Inl e \<Rightarrow> Inl e
           | Inr False \<Rightarrow> Inr None
           | Inr True \<Rightarrow>
               Inr (Some (origin, PILImageEncoder # snd (collect_known_metadata annotations)))))"

section \<open>The path handler\<close>

fun content_scan :: "(nat \<times> annotation) list \<Rightarrow> string option \<Rightarrow> annotation list
    \<Rightarrow> exn + (string option \<times> annotation list)" where
  "content_scan [] content_type remaining = Inr (content_type, remaining)"
| "content_scan ((i, ContentType c) # rest) content_type remaining =
     (case del_at i remaining of
        Inl e \<Rightarrow> Inl e
      | Inr remaining' \<Rightarrow> content_scan rest (Some c) remaining')"
| "content_scan ((i, a) # rest) content_type remaining = content_scan rest content_type remaining"

text \<open>Membership in a set literal hashes the candidate first, so an unhashable source raises
  TypeError.\<close>

definition pathlib_prepare_pydantic_annotations :: preparer where
  "pathlib_prepare_pydantic_annotations source annotations =
     (if \<not> hashable source then Inl TypeError
      else if source \<notin> set path_types then Inr None
      else (let remaining_annotations = snd (collect_known_metadata annotations) in
            case content_scan (rev (enumerate 0 remaining_annotations)) None remaining_annotations of
              Inl e \<Rightarrow> Inl e
            | Inr (content_type, remaining) \<Rightarrow>
                Inr (Some (source, FileSchema content_type # remaining))))"

section \<open>The dispatch wrapper\<close>

text \<open>
  Each call of a preparer is recorded in a log, so that "which handlers were invoked" is part
  of the result. \<open>Builtin\<close> is the engine's own
  \<^verbatim>\<open>super()._get_prepare_pydantic_annotations_for_known_type\<close>, a parameter.
\<close>

datatype preparer_name = Pathlib | Builtin | Numpy | Torch | Tf | Pandas | Pil

definition CUSTOM_PREPARE_METHODS :: "deps \<Rightarrow> (preparer_name \<times> preparer) list" where
  "CUSTOM_PREPARE_METHODS D =
     [(Numpy, numpy_prepare_pydantic_annotations D),
      (Torch, torch_prepare_pydantic_annotations D),
      (Tf, tf_prepare_pydantic_annotations D),
      (Pandas, pandas_prepare_pydantic_annotations D),
      (Pil, pil_prepare_pydantic_annotations D)]"

text \<open>The \<^verbatim>\<open>for preparer in CUSTOM_PREPARE_METHODS\<close> loop.\<close>

fun try_preparers :: "(preparer_name \<times> preparer) list \<Rightarrow> pyobj \<Rightarrow> annotation list
    \<Rightarrow> preparer_name list \<Rightarrow> preparer_name list \<times> (exn + prepared)" where
  "try_preparers [] obj annotations log = (log, Inr None)"
| "try_preparers ((n, preparer) # rest) obj annotations log =
     (case preparer obj annotations of
        Inr None \<Rightarrow> try_preparers rest obj annotations (log @ [n])
      | res \<Rightarrow> (log @ [n], res))"

definition get_prepare_pydantic_annotations_for_known_type ::
    "deps \<Rightarrow> preparer \<Rightarrow> pyobj \<Rightarrow> annotation list \<Rightarrow> preparer_name list \<times> (exn + prepared)" where
  "get_prepare_pydantic_annotations_for_known_type D builtin obj annotations =
     (if \<not> hashable obj then ([], Inr None)
      else (case pathlib_prepare_pydantic_annotations obj annotations of
              Inr None \<Rightarrow>
                (case builtin obj annotations of
                   Inr None \<Rightarrow>
                     try_preparers (CUSTOM_PREPARE_METHODS D) obj annotations [Pathlib, Builtin]
                 | res \<Rightarrow> ([Pathlib, Builtin], res))
            | res \<Rightarrow> ([Pathlib], res)))"

section \<open>Vocabulary of the statements\<close>

text \<open>The first and the last value that a partial reader finds in a list, and the choice
  between a found value and a default.\<close>

fun firstval :: "('a \<Rightarrow> 'b option) \<Rightarrow> 'a list \<Rightarrow> 'b option" where
  "firstval f [] = None"
| "firstval f (x # xs) = (case f x of Some v \<Rightarrow> Some v | None \<Rightarrow> firstval f xs)"

definition lastval :: "('a \<Rightarrow> 'b option) \<Rightarrow> 'a list \<Rightarrow> 'b option" where
  "lastval f xs = firstval f (rev xs)"

definition or_else :: "'a option \<Rightarrow> 'a option \<Rightarrow> 'a option" where
  "or_else a b = (case a of Some v \<Rightarrow> Some v | None \<Rightarrow> b)"

text \<open>An annotation that the tensor handlers leave in place: neither a Shape nor a DType.\<close>

definition unconsumed :: "annotation \<Rightarrow> bool" where
  "unconsumed a = (shape_of a = None \<and> dtype_of a = None)"

text \<open>An annotation that the path handler leaves in place: not a ContentType.\<close>

definition not_content :: "annotation \<Rightarrow> bool" where
  "not_content a = (content_type_of a = None)"

text \<open>
  Modelled from the spec: \<^verbatim>\<open>typing_utils.get_origin\<close> and
  \<^verbatim>\<open>typing_utils.get_args\<close> are not among the sources. The spec speaks of the
  origin/generic-parameter pair of a parametrized type and expects a tensor type with no generic
  parameter to be recognised by the subclass test on its origin, so the origin of a parametrized
  type is its unsubscripted class and the origin of any other object is the object itself; only
  a parametrized type has arguments. These two functions and the stand-in for
  \<^verbatim>\<open>numpy.dtype(x).name\<close> (a numpy scalar class names itself, anything else is
  rejected with TypeError) instantiate the parameters at concrete inputs only.
\<close>

fun typing_get_origin :: "pyobj \<Rightarrow> pyobj" where
  "typing_get_origin (PyAlias orig args) = orig"
| "typing_get_origin x = x"

fun typing_get_args :: "pyobj \<Rightarrow> pyobj list" where
  "typing_get_args (PyAlias orig args) = args"
| "typing_get_args x = []"

fun numpy_dtype_name :: "pyobj \<Rightarrow> exn + string" where
  "numpy_dtype_name (PyClass qn anc) = (if fst qn = ''numpy'' then Inr (snd qn) else Inl TypeError)"
| "numpy_dtype_name x = Inl TypeError"

definition typing_deps :: deps where
  "typing_deps = \<lparr>get_origin = typing_get_origin, get_args = typing_get_args,
                  np_dtype_name = numpy_dtype_name\<rparr>"

text \<open>Concrete source types: \<^verbatim>\<open>typing.Any\<close>,
  \<^verbatim>\<open>np.ndarray[Any, np.dtype[np.float32]]\<close> and
  \<^verbatim>\<open>np.ndarray[Any, np.float32]\<close>, whose second argument is not a
  \<^verbatim>\<open>dtype[...]\<close>.\<close>

definition typing_Any :: pyobj where
  "typing_Any = PyOther (Str ''typing'') True True"

definition np_float32 :: pyobj where
  "np_float32 = PyClass (''numpy'', ''float32'') []"

definition NDArray_float32 :: pyobj where
  "NDArray_float32 =
     PyAlias np_ndarray [typing_Any, PyAlias (PyClass (''numpy'', ''dtype'') []) [np_float32]]"

definition ndarray_Any_float32 :: pyobj where
  "ndarray_Any_float32 = PyAlias np_ndarray [typing_Any, np_float32]"

text \<open>The order in which the wrapper consults its preparers, and the preparer behind each
  name.\<close>

definition dispatch_order :: "preparer_name list" where
  "dispatch_order = [Pathlib, Builtin, Numpy, Torch, Tf, Pandas, Pil]"

fun preparer_of :: "deps \<Rightarrow> preparer \<Rightarrow> preparer_name \<Rightarrow> preparer" where
  "preparer_of D builtin Pathlib = pathlib_prepare_pydantic_annotations"
| "preparer_of D builtin Builtin = builtin"
| "preparer_of D builtin Numpy = numpy_prepare_pydantic_annotations D"
| "preparer_of D builtin Torch = torch_prepare_pydantic_annotations D"
| "preparer_of D builtin Tf = tf_prepare_pydantic_annotations D"
| "preparer_of D builtin Pandas = pandas_prepare_pydantic_annotations D"
| "preparer_of D builtin Pil = pil_prepare_pydantic_annotations D"

text \<open>Whether \<^verbatim>\<open>issubclass\<close> accepts the object as its first argument.\<close>

fun is_class :: "pyobj \<Rightarrow> bool" where
  "is_class (PyClass qn anc) = True"
| "is_class x = False"

text \<open>More concrete inputs: an unhashable object such as a list, an engine that raises and one
  that recognises nothing, the class \<^verbatim>\<open>int\<close>, a generic DataFrame subclass defined in a
  module \<^verbatim>\<open>pandas_models\<close> and its parametrization, the function
  \<^verbatim>\<open>torch.nn.functional.relu\<close>, and the method \<^verbatim>\<open>join\<close> of a string,
  which is hashable and whose \<^verbatim>\<open>__module__\<close> is None.\<close>

definition a_list_instance :: pyobj where
  "a_list_instance = PyOther Absent False True"

definition raising_builtin :: preparer where
  "raising_builtin obj annotations = Inl TypeError"

definition silent_builtin :: preparer where
  "silent_builtin obj annotations = Inr None"

definition builtins_int :: pyobj where
  "builtins_int = PyClass (''builtins'', ''int'') []"

definition TypedFrame :: pyobj where
  "TypedFrame = PyClass (''pandas_models'', ''TypedFrame'') [(''pandas.core.frame'', ''DataFrame'')]"

definition TypedFrame_int :: pyobj where
  "TypedFrame_int = PyAlias TypedFrame [builtins_int]"

definition torch_relu :: pyobj where
  "torch_relu = PyOther (Str ''torch.nn.functional'') True True"

definition str_join :: pyobj where
  "str_join = PyOther NoneValue True True"

section \<open>The forward scan of the numeric-array handler\<close>

lemma firstval_append:
  "firstval f (xs @ ys) = or_else (firstval f xs) (firstval f ys)"
  by (induction xs) (auto simp: or_else_def split: option.splits)

lemma lastval_Cons:
  "lastval f (x # xs) = or_else (lastval f xs) (f x)"
  by (simp add: lastval_def firstval_append or_else_def split: option.splits)

lemma lastval_Nil: "lastval f [] = None"
  by (simp add: lastval_def)

lemma annotation_kinds:
  "(\<exists>dims. a = Shape dims) \<or> (\<exists>t. a = DType t) \<or> unconsumed a"
  by (cases a) (simp_all add: unconsumed_def)

lemma unconsumed_simps [simp]:
  "\<not> unconsumed (Shape dims)" "\<not> unconsumed (DType t)"
  by (simp_all add: unconsumed_def)

lemma numpy_scan_other:
  "unconsumed a \<Longrightarrow> numpy_scan (a # rest) dtype shape remaining =
     numpy_scan rest dtype shape (remaining @ [a])"
  by (cases a) (simp_all add: unconsumed_def)

text \<open>When every DType annotation carries the value \<open>d\<close> and the value held at the start
  is unset or \<open>d\<close>, the scan succeeds: the last Shape wins and the other annotations are
  appended in order.\<close>

lemma numpy_scan_agree:
  "\<forall>t. DType t \<in> set xs \<longrightarrow> t = d \<Longrightarrow> dtype = None \<or> dtype = Some d \<Longrightarrow>
   numpy_scan xs dtype shape remaining =
     Inr (or_else dtype (firstval dtype_of xs), or_else (lastval shape_of xs) shape,
          remaining @ filter unconsumed xs)"
proof (induction xs arbitrary: dtype shape remaining)
  case Nil
  then show ?case by (simp add: or_else_def lastval_Nil split: option.splits)
next
  case (Cons a xs)
  consider (S) dims where "a = Shape dims" | (D) t where "a = DType t" | (U) "unconsumed a"
    using annotation_kinds by blast
  then show ?case
  proof cases
    case S
    have "numpy_scan (a # xs) dtype shape remaining = numpy_scan xs dtype (Some dims) remaining"
      using S by simp
    also have "\<dots> = Inr (or_else dtype (firstval dtype_of xs),
        or_else (lastval shape_of xs) (Some dims), remaining @ filter unconsumed xs)"
      using Cons.prems by (intro Cons.IH) auto
    finally show ?thesis using S
      by (simp add: lastval_Cons or_else_def split: option.splits)
  next
    case D
    have td: "t = d" using D Cons.prems(1) by simp
    have "numpy_scan (a # xs) dtype shape remaining = numpy_scan xs (Some d) shape remaining"
      using D td Cons.prems(2) by auto
    also have "\<dots> = Inr (or_else (Some d) (firstval dtype_of xs),
        or_else (lastval shape_of xs) shape, remaining @ filter unconsumed xs)"
      using Cons.prems by (intro Cons.IH) auto
    finally show ?thesis using D td Cons.prems(2)
      by (auto simp add: lastval_Cons or_else_def split: option.splits)
  next
    case U
    have "numpy_scan (a # xs) dtype shape remaining = numpy_scan xs dtype shape (remaining @ [a])"
      using U by (rule numpy_scan_other)
    also have "\<dots> = Inr (or_else dtype (firstval dtype_of xs),
        or_else (lastval shape_of xs) shape, (remaining @ [a]) @ filter unconsumed xs)"
      using Cons.prems by (intro Cons.IH) auto
    finally have eq: "numpy_scan (a # xs) dtype shape remaining =
        Inr (or_else dtype (firstval dtype_of xs), or_else (lastval shape_of xs) shape,
             (remaining @ [a]) @ filter unconsumed xs)" .
    have "shape_of a = None" "dtype_of a = None" using U by (simp_all add: unconsumed_def)
    with eq show ?thesis using U
      by (simp add: lastval_Cons or_else_def split: option.splits)
  qed
qed

text \<open>The scan raises nothing but the conflict error, at a DType annotation \<open>b\<close> that differs
  from the value \<open>a\<close> held at that moment: the value given at the start, or else the value of an
  earlier DType annotation.\<close>

lemma numpy_scan_error:
  "numpy_scan xs dtype shape remaining = Inl e \<Longrightarrow>
   \<exists>a b pre post. e = ValueError (conflict_message a b) \<and> a \<noteq> b \<and> xs = pre @ DType b # post \<and>
     (case dtype of Some d \<Rightarrow> a = d | None \<Rightarrow> DType a \<in> set pre)"
proof (induction xs arbitrary: dtype shape remaining)
  case Nil
  then show ?case by simp
next
  case (Cons x xs)
  consider (S) dims where "x = Shape dims" | (D) t where "x = DType t" | (U) "unconsumed x"
    using annotation_kinds by blast
  then show ?case
  proof cases
    case S
    then have "numpy_scan xs dtype (Some dims) remaining = Inl e" using Cons.prems by simp
    from Cons.IH[OF this] obtain a b pre post where
      h: "e = ValueError (conflict_message a b)" "a \<noteq> b" "xs = pre @ DType b # post"
         "(case dtype of Some d \<Rightarrow> a = d | None \<Rightarrow> DType a \<in> set pre)" by blast
    have "x # xs = (x # pre) @ DType b # post" using h(3) by simp
    moreover have "(case dtype of Some d \<Rightarrow> a = d | None \<Rightarrow> DType a \<in> set (x # pre))"
      using h(4) by (auto split: option.splits)
    ultimately show ?thesis using h(1,2) by blast
  next
    case D
    show ?thesis
    proof (cases "\<exists>d. dtype = Some d \<and> d \<noteq> t")
      case True
      then obtain d where d: "dtype = Some d" "d \<noteq> t" by blast
      then have "e = ValueError (conflict_message d t)" using Cons.prems D by simp
      moreover have "x # xs = [] @ DType t # xs" using D by simp
      ultimately show ?thesis using d
        by (intro exI[where x = d] exI[where x = t] exI[where x = "[]"] exI[where x = xs]) simp
    next
      case False
      then have "numpy_scan xs (Some t) shape remaining = Inl e"
        using Cons.prems D by (auto split: option.splits if_splits)
      from Cons.IH[OF this] obtain a b pre post where
        h: "e = ValueError (conflict_message a b)" "a \<noteq> b" "xs = pre @ DType b # post"
           "a = t" by auto
      have "x # xs = (x # pre) @ DType b # post" using h(3) by simp
      moreover have "(case dtype of Some d \<Rightarrow> a = d | None \<Rightarrow> DType a \<in> set (x # pre))"
        using h(4) D False by (auto split: option.splits)
      ultimately show ?thesis using h(1,2) by blast
    qed
  next
    case U
    then have "numpy_scan xs dtype shape (remaining @ [x]) = Inl e"
      using Cons.prems numpy_scan_other by simp
    from Cons.IH[OF this] obtain a b pre post where
      h: "e = ValueError (conflict_message a b)" "a \<noteq> b" "xs = pre @ DType b # post"
         "(case dtype of Some d \<Rightarrow> a = d | None \<Rightarrow> DType a \<in> set pre)" by blast
    have "x # xs = (x # pre) @ DType b # post" using h(3) by simp
    moreover have "(case dtype of Some d \<Rightarrow> a = d | None \<Rightarrow> DType a \<in> set (x # pre))"
      using h(4) by (auto split: option.splits)
    ultimately show ?thesis using h(1,2) by blast
  qed
qed

text \<open>A scan that succeeds has seen DType annotations of one value only, which it returns
  and which is the value held at the start when there was one.\<close>

lemma numpy_scan_result_dtypes:
  "numpy_scan xs dtype shape remaining = Inr (d', s', r') \<Longrightarrow>
   (\<forall>t. DType t \<in> set xs \<longrightarrow> d' = Some t) \<and> (dtype \<noteq> None \<longrightarrow> d' = dtype)"
proof (induction xs arbitrary: dtype shape remaining)
  case Nil
  then show ?case by simp
next
  case (Cons x xs)
  consider (S) dims where "x = Shape dims" | (D) t where "x = DType t" | (U) "unconsumed x"
    using annotation_kinds by blast
  then show ?case
  proof cases
    case S
    then have "numpy_scan xs dtype (Some dims) remaining = Inr (d', s', r')"
      using Cons.prems by simp
    from Cons.IH[OF this] show ?thesis using S by auto
  next
    case D
    then have ok: "dtype = None \<or> dtype = Some t"
      using Cons.prems by (auto split: option.splits if_splits)
    then have "numpy_scan xs (Some t) shape remaining = Inr (d', s', r')"
      using Cons.prems D by (auto split: option.splits if_splits)
    from Cons.IH[OF this] show ?thesis using D ok by auto
  next
    case U
    then have "numpy_scan xs dtype shape (remaining @ [x]) = Inr (d', s', r')"
      using Cons.prems numpy_scan_other by simp
    from Cons.IH[OF this] show ?thesis using U by (auto simp: unconsumed_def)
  qed
qed

lemma others_set:
  "\<not> is_known a \<Longrightarrow> a \<in> set (snd (collect_known_metadata annotations)) \<longleftrightarrow> a \<in> set annotations"
  by (simp add: collect_known_metadata_def)

section \<open>The reverse scans of the tensor and path handlers\<close>

lemma rev_enumerate_snoc:
  "rev (enumerate 0 (xs @ [x])) = (length xs, x) # rev (enumerate 0 xs)"
  by (simp add: enumerate_append_eq)

lemma tensor_scan_other:
  "unconsumed a \<Longrightarrow> tensor_scan ((i, a) # rest) dtype shape remaining =
     tensor_scan rest dtype shape remaining"
  by (cases a) (simp_all add: unconsumed_def)

lemma tensor_scan_rev_enumerate:
  "tensor_scan (rev (enumerate 0 xs)) dtype shape (xs @ ys) =
     Inr (or_else (firstval dtype_of xs) dtype, or_else (firstval shape_of xs) shape,
          filter unconsumed xs @ ys)"
proof (induction xs arbitrary: dtype shape ys rule: rev_induct)
  case Nil
  then show ?case by (simp add: or_else_def)
next
  case (snoc x xs)
  consider (S) dims where "x = Shape dims" | (D) t where "x = DType t" | (U) "unconsumed x"
    using annotation_kinds by blast
  then show ?case
  proof cases
    case S
    have "tensor_scan (rev (enumerate 0 (xs @ [x]))) dtype shape ((xs @ [x]) @ ys) =
        tensor_scan (rev (enumerate 0 xs)) dtype (Some dims) (xs @ ys)"
      unfolding rev_enumerate_snoc using S by (simp add: del_at_def)
    also have "\<dots> = Inr (or_else (firstval dtype_of xs) dtype,
        or_else (firstval shape_of xs) (Some dims), filter unconsumed xs @ ys)"
      by (rule snoc.IH)
    finally show ?thesis using S
      by (simp add: firstval_append or_else_def split: option.splits)
  next
    case D
    have "tensor_scan (rev (enumerate 0 (xs @ [x]))) dtype shape ((xs @ [x]) @ ys) =
        tensor_scan (rev (enumerate 0 xs)) (Some t) shape (xs @ ys)"
      unfolding rev_enumerate_snoc using D by (simp add: del_at_def)
    also have "\<dots> = Inr (or_else (firstval dtype_of xs) (Some t),
        or_else (firstval shape_of xs) shape, filter unconsumed xs @ ys)"
      by (rule snoc.IH)
    finally show ?thesis using D
      by (simp add: firstval_append or_else_def split: option.splits)
  next
    case U
    have "tensor_scan (rev (enumerate 0 (xs @ [x]))) dtype shape ((xs @ [x]) @ ys) =
        tensor_scan (rev (enumerate 0 xs)) dtype shape (xs @ (x # ys))"
      unfolding rev_enumerate_snoc using U by (simp add: tensor_scan_other)
    also have "\<dots> = Inr (or_else (firstval dtype_of xs) dtype,
        or_else (firstval shape_of xs) shape, filter unconsumed xs @ (x # ys))"
      by (rule snoc.IH)
    finally have eq: "tensor_scan (rev (enumerate 0 (xs @ [x]))) dtype shape ((xs @ [x]) @ ys) =
        Inr (or_else (firstval dtype_of xs) dtype,
        or_else (firstval shape_of xs) shape, filter unconsumed xs @ (x # ys))" .
    have "shape_of x = None" "dtype_of x = None" using U by (simp_all add: unconsumed_def)
    with eq show ?thesis using U
      by (simp add: firstval_append or_else_def split: option.splits)
  qed
qed

lemma tensor_body_eq:
  "tensor_body format source annotations =
     Inr (Some (source,
       TensorSchema format (firstval dtype_of (snd (collect_known_metadata annotations)))
         (firstval shape_of (snd (collect_known_metadata annotations)))
       # filter unconsumed (snd (collect_known_metadata annotations))))"
proof -
  let ?others = "snd (collect_known_metadata annotations)"
  have "tensor_scan (rev (enumerate 0 ?others)) None None (?others @ []) =
      Inr (or_else (firstval dtype_of ?others) None, or_else (firstval shape_of ?others) None,
           filter unconsumed ?others @ [])"
    by (rule tensor_scan_rev_enumerate)
  then have "tensor_scan (rev (enumerate 0 ?others)) None None ?others =
      Inr (firstval dtype_of ?others, firstval shape_of ?others, filter unconsumed ?others)"
    by (simp add: or_else_def split: option.splits)
  then show ?thesis by (simp add: tensor_body_def Let_def)
qed

lemma not_content_cases: "(\<exists>c. a = ContentType c) \<or> not_content a"
  by (cases a) (simp_all add: not_content_def)

lemma content_scan_other:
  "not_content a \<Longrightarrow> content_scan ((i, a) # rest) content_type remaining =
     content_scan rest content_type remaining"
  by (cases a) (simp_all add: not_content_def)

lemma content_scan_rev_enumerate:
  "content_scan (rev (enumerate 0 xs)) content_type (xs @ ys) =
     Inr (or_else (firstval content_type_of xs) content_type, filter not_content xs @ ys)"
proof (induction xs arbitrary: content_type ys rule: rev_induct)
  case Nil
  then show ?case by (simp add: or_else_def)
next
  case (snoc x xs)
  show ?case
  proof (cases "not_content x")
    case True
    have "content_scan (rev (enumerate 0 (xs @ [x]))) content_type ((xs @ [x]) @ ys) =
        content_scan (rev (enumerate 0 xs)) content_type (xs @ (x # ys))"
      unfolding rev_enumerate_snoc using True by (simp add: content_scan_other)
    also have "\<dots> = Inr (or_else (firstval content_type_of xs) content_type,
        filter not_content xs @ (x # ys))"
      by (rule snoc.IH)
    finally have eq: "content_scan (rev (enumerate 0 (xs @ [x]))) content_type ((xs @ [x]) @ ys) =
        Inr (or_else (firstval content_type_of xs) content_type,
        filter not_content xs @ (x # ys))" .
    have "content_type_of x = None" using True by (simp add: not_content_def)
    with eq show ?thesis using True
      by (simp add: firstval_append or_else_def split: option.splits)
  next
    case False
    then obtain c where c: "x = ContentType c" using not_content_cases by blast
    have "content_scan (rev (enumerate 0 (xs @ [x]))) content_type ((xs @ [x]) @ ys) =
        content_scan (rev (enumerate 0 xs)) (Some c) (xs @ ys)"
      unfolding rev_enumerate_snoc using c by (simp add: del_at_def)
    also have "\<dots> = Inr (or_else (firstval content_type_of xs) (Some c),
        filter not_content xs @ ys)"
      by (rule snoc.IH)
    finally show ?thesis using c False
      by (simp add: firstval_append or_else_def split: option.splits)
  qed
qed

lemma path_types_hashable: "x \<in> set path_types \<Longrightarrow> hashable x"
  by (auto simp: path_types_def PurePath_def PurePosixPath_def PureWindowsPath_def Path_def
      PosixPath_def WindowsPath_def)

lemma pathlib_matched:
  "source \<in> set path_types \<Longrightarrow>
   pathlib_prepare_pydantic_annotations source annotations =
     Inr (Some (source,
       FileSchema (firstval content_type_of (snd (collect_known_metadata annotations)))
       # filter not_content (snd (collect_known_metadata annotations))))"
proof -
  assume a: "source \<in> set path_types"
  let ?others = "snd (collect_known_metadata annotations)"
  have "content_scan (rev (enumerate 0 ?others)) None (?others @ []) =
      Inr (or_else (firstval content_type_of ?others) None, filter not_content ?others @ [])"
    by (rule content_scan_rev_enumerate)
  then have "content_scan (rev (enumerate 0 ?others)) None ?others =
      Inr (firstval content_type_of ?others, filter not_content ?others)"
    by (simp add: or_else_def split: option.splits)
  then show ?thesis using a path_types_hashable[OF a]
    by (simp add: pathlib_prepare_pydantic_annotations_def Let_def)
qed

section \<open>Claims about the numeric-array handler\<close>

text \<open>
  C1. A source type of the numeric-array family (module in the numpy namespace, origin the
  ndarray class) whose generic parameter gives the element-type name \<open>d\<close>: when every explicit
  DType annotation carries \<open>d\<close>, resolution succeeds and the TensorSchema's dtype is \<open>d\<close>
  (with the last Shape and the unconsumed annotations in order); when some explicit DType
  annotation carries another value, resolution raises the conflict ValueError, naming \<open>d\<close>
  and a differing annotation value, and returns neither a result nor None.
\<close>

theorem numpy_inferred_and_explicit_dtype:
  assumes "module_startswith source ''numpy'' = Inr True"
    and "get_origin D source = np_ndarray"
    and "element_dtype D (get_args D source) = Inr (Some d)"
  shows "((\<forall>u. DType u \<in> set annotations \<longrightarrow> u = d) \<longrightarrow>
            numpy_prepare_pydantic_annotations D source annotations =
              Inr (Some (source,
                TensorSchema ''numpy-array'' (Some d)
                  (lastval shape_of (snd (collect_known_metadata annotations)))
                # filter unconsumed (snd (collect_known_metadata annotations)))))
       \<and> ((\<exists>u. DType u \<in> set annotations \<and> u \<noteq> d) \<longrightarrow>
            (\<exists>u. DType u \<in> set annotations \<and> u \<noteq> d \<and>
              numpy_prepare_pydantic_annotations D source annotations =
                Inl (ValueError (conflict_message d u))))"
proof (intro conjI impI)
  let ?others = "snd (collect_known_metadata annotations)"
  have mem: "\<And>u. DType u \<in> set ?others \<longleftrightarrow> DType u \<in> set annotations"
    by (simp add: others_set)
  {
    assume all: "\<forall>u. DType u \<in> set annotations \<longrightarrow> u = d"
    then have "\<forall>u. DType u \<in> set ?others \<longrightarrow> u = d" using mem by simp
    then have "numpy_scan ?others (Some d) None [] =
        Inr (or_else (Some d) (firstval dtype_of ?others), or_else (lastval shape_of ?others) None,
             [] @ filter unconsumed ?others)"
      by (intro numpy_scan_agree) auto
    then have scan: "numpy_scan ?others (Some d) None [] =
        Inr (Some d, lastval shape_of ?others, filter unconsumed ?others)"
      by (simp add: or_else_def split: option.splits)
    show "numpy_prepare_pydantic_annotations D source annotations =
        Inr (Some (source, TensorSchema ''numpy-array'' (Some d) (lastval shape_of ?others)
               # filter unconsumed ?others))"
      using assms scan by (simp add: numpy_prepare_pydantic_annotations_def)
  }
  {
    assume "\<exists>u. DType u \<in> set annotations \<and> u \<noteq> d"
    then obtain u where u: "DType u \<in> set ?others" "u \<noteq> d" using mem by blast
    have "\<not> (\<exists>r. numpy_scan ?others (Some d) None [] = Inr r)"
    proof
      assume "\<exists>r. numpy_scan ?others (Some d) None [] = Inr r"
      then obtain d' s' r' where "numpy_scan ?others (Some d) None [] = Inr (d', s', r')"
        by (metis prod_cases3)
      from numpy_scan_result_dtypes[OF this] u show False by auto
    qed
    then obtain e where e: "numpy_scan ?others (Some d) None [] = Inl e"
      by (cases "numpy_scan ?others (Some d) None []") auto
    from numpy_scan_error[OF e] obtain b pre post where
      b: "e = ValueError (conflict_message d b)" "d \<noteq> b" "?others = pre @ DType b # post"
      by auto
    have "DType b \<in> set ?others" using b(3) by simp
    then have "DType b \<in> set annotations" using mem by blast
    moreover have "numpy_prepare_pydantic_annotations D source annotations =
        Inl (ValueError (conflict_message d b))"
      using assms e b(1) by (simp add: numpy_prepare_pydantic_annotations_def)
    ultimately show "\<exists>u. DType u \<in> set annotations \<and> u \<noteq> d \<and>
        numpy_prepare_pydantic_annotations D source annotations =
          Inl (ValueError (conflict_message d u))"
      using b(2) by blast
  }
qed

lemma NDArray_float32_facts:
  "module_startswith NDArray_float32 ''numpy'' = Inr True"
  "get_origin typing_deps NDArray_float32 = np_ndarray"
  "element_dtype typing_deps (get_args typing_deps NDArray_float32) = Inr (Some ''float32'')"
  by (simp_all add: module_startswith_def startswith_def NDArray_float32_def np_ndarray_def typing_deps_def
      element_dtype_def np_float32_def)

theorem numpy_inferred_and_explicit_dtype_witness:
  "numpy_prepare_pydantic_annotations typing_deps NDArray_float32
       [Shape [3, 4], KnownMetadata ''gt'', DType ''float32'', OtherAnnotation ''doc''] =
     Inr (Some (NDArray_float32,
       [TensorSchema ''numpy-array'' (Some ''float32'') (Some [3, 4]), OtherAnnotation ''doc'']))
   \<and> numpy_prepare_pydantic_annotations typing_deps NDArray_float32 [DType ''int8''] =
       Inl (ValueError ''Conflicting dtype annotations: float32 and int8'')"
proof -
  note T = numpy_inferred_and_explicit_dtype[OF NDArray_float32_facts]
  have 1: "numpy_prepare_pydantic_annotations typing_deps NDArray_float32
       [Shape [3, 4], KnownMetadata ''gt'', DType ''float32'', OtherAnnotation ''doc''] =
     Inr (Some (NDArray_float32,
       [TensorSchema ''numpy-array'' (Some ''float32'') (Some [3, 4]), OtherAnnotation ''doc'']))"
    using T[of "[Shape [3, 4], KnownMetadata ''gt'', DType ''float32'', OtherAnnotation ''doc'']"]
    by (simp add: collect_known_metadata_def lastval_def unconsumed_def)
  have 2: "numpy_prepare_pydantic_annotations typing_deps NDArray_float32 [DType ''int8''] =
       Inl (ValueError ''Conflicting dtype annotations: float32 and int8'')"
    using T[of "[DType ''int8'']"] by (auto simp add: conflict_message_def)
  show ?thesis using 1 2 by simp
qed

text \<open>
  C10. In the numeric-array handler the conflict error is also raised when the source type
  carries no inferred element type and two explicit DType annotations with different values
  appear: the error is raised at a DType annotation \<open>b\<close> and names the value \<open>a\<close> held at
  that moment, which an earlier explicit DType annotation has set.
\<close>

theorem numpy_two_explicit_dtypes_conflict:
  assumes "module_startswith source ''numpy'' = Inr True"
    and "get_origin D source = np_ndarray"
    and "element_dtype D (get_args D source) = Inr None"
    and "DType t \<in> set annotations" and "DType u \<in> set annotations" and "t \<noteq> u"
  shows "\<exists>a b pre post. a \<noteq> b \<and>
           snd (collect_known_metadata annotations) = pre @ DType b # post \<and>
           DType a \<in> set pre \<and>
           numpy_prepare_pydantic_annotations D source annotations =
             Inl (ValueError (conflict_message a b))"
proof -
  let ?others = "snd (collect_known_metadata annotations)"
  have mem: "DType t \<in> set ?others" "DType u \<in> set ?others"
    using assms(4,5) by (simp_all add: others_set)
  have "\<not> (\<exists>r. numpy_scan ?others None None [] = Inr r)"
  proof
    assume "\<exists>r. numpy_scan ?others None None [] = Inr r"
    then obtain d' s' r' where "numpy_scan ?others None None [] = Inr (d', s', r')"
      by (metis prod_cases3)
    from numpy_scan_result_dtypes[OF this] mem assms(6) show False by auto
  qed
  then obtain e where e: "numpy_scan ?others None None [] = Inl e"
    by (cases "numpy_scan ?others None None []") auto
  from numpy_scan_error[OF e] obtain a b pre post where
    b: "e = ValueError (conflict_message a b)" "a \<noteq> b" "?others = pre @ DType b # post"
       "DType a \<in> set pre"
    by auto
  have "numpy_prepare_pydantic_annotations D source annotations =
      Inl (ValueError (conflict_message a b))"
    using assms(1,2,3) e b(1) by (simp add: numpy_prepare_pydantic_annotations_def)
  then show ?thesis using b by blast
qed

lemma np_ndarray_facts:
  "module_startswith np_ndarray ''numpy'' = Inr True"
  "get_origin typing_deps np_ndarray = np_ndarray"
  "element_dtype typing_deps (get_args typing_deps np_ndarray) = Inr None"
  by (simp_all add: module_startswith_def startswith_def np_ndarray_def typing_deps_def element_dtype_def)

theorem numpy_two_explicit_dtypes_conflict_witness:
  "(\<exists>a b pre post. a \<noteq> b \<and>
      snd (collect_known_metadata [DType ''float32'', Shape [2], DType ''int8'']) =
        pre @ DType b # post \<and>
      DType a \<in> set pre \<and>
      numpy_prepare_pydantic_annotations typing_deps np_ndarray
          [DType ''float32'', Shape [2], DType ''int8''] =
        Inl (ValueError (conflict_message a b)))
   \<and> numpy_prepare_pydantic_annotations typing_deps np_ndarray
       [DType ''float32'', Shape [2], DType ''int8''] =
     Inl (ValueError ''Conflicting dtype annotations: float32 and int8'')"
proof -
  have m: "DType ''float32'' \<in> set [DType ''float32'', Shape [2], DType ''int8'']"
          "DType ''int8'' \<in> set [DType ''float32'', Shape [2], DType ''int8'']"
          "''float32'' \<noteq> ''int8''"
    by simp_all
  have 1: "\<exists>a b pre post. a \<noteq> b \<and>
      snd (collect_known_metadata [DType ''float32'', Shape [2], DType ''int8'']) =
        pre @ DType b # post \<and>
      DType a \<in> set pre \<and>
      numpy_prepare_pydantic_annotations typing_deps np_ndarray
          [DType ''float32'', Shape [2], DType ''int8''] =
        Inl (ValueError (conflict_message a b))"
    by (rule numpy_two_explicit_dtypes_conflict[OF np_ndarray_facts m])
  have 2: "numpy_prepare_pydantic_annotations typing_deps np_ndarray
       [DType ''float32'', Shape [2], DType ''int8''] =
     Inl (ValueError ''Conflicting dtype annotations: float32 and int8'')"
    by (simp add: numpy_prepare_pydantic_annotations_def np_ndarray_facts
        collect_known_metadata_def conflict_message_def)
  show ?thesis using 1 2 by blast
qed

section \<open>Claims about the dispatch wrapper and the dataframe handler\<close>

text \<open>
  C5. For every unhashable source object the top-level resolver returns None, raises nothing
  and invokes no handler: the call log is empty, whatever the engine's own resolution and the
  handlers would have done.
\<close>

theorem unhashable_source_returns_none:
  "\<not> hashable obj \<Longrightarrow>
   get_prepare_pydantic_annotations_for_known_type D builtin obj annotations = ([], Inr None)"
  by (simp add: get_prepare_pydantic_annotations_for_known_type_def)

theorem unhashable_source_returns_none_witness:
  "\<not> hashable a_list_instance \<and>
   pathlib_prepare_pydantic_annotations a_list_instance [ContentType ''application/pdf''] =
     Inl TypeError \<and>
   raising_builtin a_list_instance [ContentType ''application/pdf''] = Inl TypeError \<and>
   get_prepare_pydantic_annotations_for_known_type typing_deps raising_builtin a_list_instance
     [ContentType ''application/pdf''] = ([], Inr None)"
proof -
  have h: "\<not> hashable a_list_instance" by (simp add: a_list_instance_def)
  show ?thesis
    using h unhashable_source_returns_none[OF h, of typing_deps raising_builtin
        "[ContentType ''application/pdf'']"]
    by (simp add: pathlib_prepare_pydantic_annotations_def raising_builtin_def)
qed

text \<open>The loop over the family handlers, for any list of handlers: it calls a prefix of
  the list, every called handler but the last returned None, the result is the last called
  handler's, and a None result means that all were called.\<close>

lemma try_preparers_log:
  "try_preparers hs obj annotations log = (log', res) \<Longrightarrow>
   \<exists>called. log' = log @ called \<and> called = take (length called) (map fst hs) \<and>
     (\<forall>h \<in> set (butlast (take (length called) hs)). snd h obj annotations = Inr None) \<and>
     (if called = [] then hs = [] \<and> res = Inr None
      else res = snd (hs ! (length called - 1)) obj annotations) \<and>
     (res = Inr None \<longrightarrow> length called = length hs)"
proof (induction hs arbitrary: log)
  case Nil
  then show ?case by simp
next
  case (Cons h hs)
  obtain n p where h: "h = (n, p)" by (cases h)
  show ?case
  proof (cases "p obj annotations = Inr None")
    case False
    then have "log' = log @ [n]" "res = p obj annotations"
      using Cons.prems h by (auto split: sum.splits option.splits)
    then show ?thesis using False h
      by (intro exI[where x = "[n]"]) simp
  next
    case True
    then have "try_preparers hs obj annotations (log @ [n]) = (log', res)"
      using Cons.prems h by simp
    from Cons.IH[OF this] obtain called where c:
      "log' = (log @ [n]) @ called" "called = take (length called) (map fst hs)"
      "\<forall>h \<in> set (butlast (take (length called) hs)). snd h obj annotations = Inr None"
      "if called = [] then hs = [] \<and> res = Inr None
       else res = snd (hs ! (length called - 1)) obj annotations"
      "res = Inr None \<longrightarrow> length called = length hs" by blast
    show ?thesis
    proof (intro exI[where x = "n # called"] conjI)
      show "log' = log @ n # called" using c(1) by simp
      show "n # called = take (length (n # called)) (map fst (h # hs))"
        using c(2) h by simp
      show "\<forall>h' \<in> set (butlast (take (length (n # called)) (h # hs))).
          snd h' obj annotations = Inr None"
        using c(3) True h by (cases "take (length called) hs") auto
      show "if n # called = [] then h # hs = [] \<and> res = Inr None
         else res = snd ((h # hs) ! (length (n # called) - 1)) obj annotations"
        using c(4) True h by (cases called) (auto split: if_splits)
      show "res = Inr None \<longrightarrow> length (n # called) = length (h # hs)"
        using c(5) by simp
    qed
  qed
qed


text \<open>
  C6. The dispatch wrapper checks hashability first; for a hashable object it consults the
  preparers in the fixed order path handler, engine's built-in resolution, numeric-array,
  torch, tensorflow, dataframe, image: the preparers invoked are a non-empty prefix of that
  order, every invoked preparer but the last returned None, the wrapper's outcome is the
  outcome of the last invoked preparer, and the wrapper returns None only after all seven
  returned None.
\<close>

theorem dispatch_first_match:
  assumes "get_prepare_pydantic_annotations_for_known_type D builtin obj annotations = (log, res)"
  shows "if hashable obj
         then log \<noteq> [] \<and> log = take (length log) dispatch_order \<and>
              (\<forall>n \<in> set (butlast log). preparer_of D builtin n obj annotations = Inr None) \<and>
              res = preparer_of D builtin (last log) obj annotations \<and>
              (res = Inr None \<longrightarrow> log = dispatch_order)
         else log = [] \<and> res = Inr None"
  using assms
  unfolding get_prepare_pydantic_annotations_for_known_type_def CUSTOM_PREPARE_METHODS_def
    dispatch_order_def
  by (auto split: sum.splits option.splits if_splits)


theorem dispatch_first_match_witness:
  "hashable NDArray_float32 \<and>
   get_prepare_pydantic_annotations_for_known_type typing_deps silent_builtin NDArray_float32 [] =
     ([Pathlib, Builtin, Numpy],
      Inr (Some (NDArray_float32, [TensorSchema ''numpy-array'' (Some ''float32'') None]))) \<and>
   [Pathlib, Builtin, Numpy] = take 3 dispatch_order \<and>
   pathlib_prepare_pydantic_annotations NDArray_float32 [] = Inr None \<and>
   silent_builtin NDArray_float32 [] = Inr None \<and>
   numpy_prepare_pydantic_annotations typing_deps NDArray_float32 [] =
     Inr (Some (NDArray_float32, [TensorSchema ''numpy-array'' (Some ''float32'') None])) \<and>
   get_prepare_pydantic_annotations_for_known_type typing_deps silent_builtin builtins_int [] =
     (dispatch_order, Inr None)"
proof -
  have w: "get_prepare_pydantic_annotations_for_known_type typing_deps silent_builtin
      NDArray_float32 [] =
     ([Pathlib, Builtin, Numpy],
      Inr (Some (NDArray_float32, [TensorSchema ''numpy-array'' (Some ''float32'') None])))"
    by (simp add: get_prepare_pydantic_annotations_for_known_type_def NDArray_float32_def
        pathlib_prepare_pydantic_annotations_def path_types_def PurePath_def PurePosixPath_def
        PureWindowsPath_def Path_def PosixPath_def WindowsPath_def silent_builtin_def
        CUSTOM_PREPARE_METHODS_def numpy_prepare_pydantic_annotations_def module_startswith_def startswith_def
        np_ndarray_def typing_deps_def element_dtype_def np_float32_def typing_Any_def
        collect_known_metadata_def)
  have h: "hashable NDArray_float32"
    by (simp add: NDArray_float32_def np_ndarray_def typing_Any_def np_float32_def)
  have n: "get_prepare_pydantic_annotations_for_known_type typing_deps silent_builtin
      builtins_int [] = (dispatch_order, Inr None)"
    by (simp add: get_prepare_pydantic_annotations_for_known_type_def builtins_int_def
        pathlib_prepare_pydantic_annotations_def path_types_def PurePath_def PurePosixPath_def
        PureWindowsPath_def Path_def PosixPath_def WindowsPath_def silent_builtin_def
        CUSTOM_PREPARE_METHODS_def numpy_prepare_pydantic_annotations_def module_startswith_def startswith_def
        torch_prepare_pydantic_annotations_def tf_prepare_pydantic_annotations_def
        pandas_prepare_pydantic_annotations_def pil_prepare_pydantic_annotations_def
        dispatch_order_def)
  show ?thesis
    using h n w dispatch_first_match[OF w]
    by (simp add: dispatch_order_def)
qed

lemma others_no_known:
  "\<not> list_ex is_known annotations \<Longrightarrow> snd (collect_known_metadata annotations) = annotations"
  by (induction annotations) (auto simp: collect_known_metadata_def)

lemma others_idem:
  "snd (collect_known_metadata (snd (collect_known_metadata annotations))) =
     snd (collect_known_metadata annotations)"
  by (simp add: collect_known_metadata_def)

lemma others_DataframeSchema:
  "list_ex is_DataframeSchema (snd (collect_known_metadata annotations)) =
     list_ex is_DataframeSchema annotations"
  "filter is_DataframeSchema (snd (collect_known_metadata annotations)) =
     filter is_DataframeSchema annotations"
proof -
  have k: "\<And>a. is_DataframeSchema a \<Longrightarrow> \<not> is_known a"
    by (case_tac a) simp_all
  show "list_ex is_DataframeSchema (snd (collect_known_metadata annotations)) =
     list_ex is_DataframeSchema annotations"
    using k by (auto simp: collect_known_metadata_def list_ex_iff)
  show "filter is_DataframeSchema (snd (collect_known_metadata annotations)) =
     filter is_DataframeSchema annotations"
    using k by (induction annotations) (auto simp: collect_known_metadata_def)
qed

lemma pandas_matched:
  "pandas_prepare_pydantic_annotations D source annotations = Inr (Some (canonical, out)) \<longleftrightarrow>
     module_startswith source ''pandas'' = Inr True \<and>
     issubclass (get_origin D source) pd_DataFrame = Inr True \<and>
     canonical = get_origin D source \<and>
     out = (if list_ex is_DataframeSchema annotations
            then snd (collect_known_metadata annotations)
            else DataframeSchema DefaultConfig # snd (collect_known_metadata annotations))"
  by (auto simp: pandas_prepare_pydantic_annotations_def Let_def others_DataframeSchema
      split: sum.splits bool.splits)

text \<open>
  C7, as amended. Dataframe resolution is idempotent on the annotations that the engine's
  metadata collection leaves over: engine-known metadata are dropped from the list, so the
  input passes through unchanged only when it holds none. For every matched dataframe type:
  when no DataframeSchema annotation is among the inputs, one default DataframeSchema is put in
  front of the left-over annotations; when one is present, the left-over annotations are
  returned as they are and none is added; the number of DataframeSchema annotations in the
  result is the number in the input, or one when there was none; and resolving the result
  again returns the same annotations.
\<close>

theorem pandas_idempotent:
  assumes "pandas_prepare_pydantic_annotations D source annotations = Inr (Some (canonical, out))"
  shows "out = (if list_ex is_DataframeSchema annotations
                then snd (collect_known_metadata annotations)
                else DataframeSchema DefaultConfig # snd (collect_known_metadata annotations))
       \<and> (\<not> list_ex is_known annotations \<longrightarrow> snd (collect_known_metadata annotations) = annotations)
       \<and> length (filter is_DataframeSchema out) =
           max 1 (length (filter is_DataframeSchema annotations))
       \<and> pandas_prepare_pydantic_annotations D source out = Inr (Some (canonical, out))"
proof -
  let ?others = "snd (collect_known_metadata annotations)"
  from assms have m: "module_startswith source ''pandas'' = Inr True"
      "issubclass (get_origin D source) pd_DataFrame = Inr True"
      "canonical = get_origin D source"
    and out: "out = (if list_ex is_DataframeSchema annotations then ?others
                     else DataframeSchema DefaultConfig # ?others)"
    by (simp_all add: pandas_matched)
  have ex: "list_ex is_DataframeSchema out"
    using out others_DataframeSchema(1)[of annotations] by (auto split: if_splits)
  have keep: "snd (collect_known_metadata out) = out"
    using out others_idem[of annotations] by (auto simp: collect_known_metadata_def)
  have cnt: "length (filter is_DataframeSchema out) =
      max 1 (length (filter is_DataframeSchema annotations))"
  proof (cases "list_ex is_DataframeSchema annotations")
    case True
    then have "filter is_DataframeSchema annotations \<noteq> []"
      by (simp add: list_ex_iff filter_empty_conv)
    then have "1 \<le> length (filter is_DataframeSchema annotations)"
      by (cases "filter is_DataframeSchema annotations") simp_all
    then show ?thesis using True out others_DataframeSchema(2)[of annotations] by simp
  next
    case False
    then have "filter is_DataframeSchema annotations = []"
      by (simp add: list_ex_iff filter_empty_conv)
    then show ?thesis using False out others_DataframeSchema(2)[of annotations] by simp
  qed
  have again: "pandas_prepare_pydantic_annotations D source out = Inr (Some (canonical, out))"
    using m ex keep by (simp add: pandas_matched)
  show ?thesis using out cnt again others_no_known by blast
qed

theorem pandas_idempotent_witness:
  "pandas_prepare_pydantic_annotations typing_deps pd_DataFrame
       [KnownMetadata ''strict'', OtherAnnotation ''doc''] =
     Inr (Some (pd_DataFrame, [DataframeSchema DefaultConfig, OtherAnnotation ''doc''])) \<and>
   pandas_prepare_pydantic_annotations typing_deps pd_DataFrame
       [DataframeSchema DefaultConfig, OtherAnnotation ''doc''] =
     Inr (Some (pd_DataFrame, [DataframeSchema DefaultConfig, OtherAnnotation ''doc''])) \<and>
   pandas_prepare_pydantic_annotations typing_deps pd_DataFrame
       [OtherAnnotation ''doc'', DataframeSchema (CustomConfig ''columns'')] =
     Inr (Some (pd_DataFrame, [OtherAnnotation ''doc'', DataframeSchema (CustomConfig ''columns'')]))"
proof -
  have 1: "pandas_prepare_pydantic_annotations typing_deps pd_DataFrame
       [KnownMetadata ''strict'', OtherAnnotation ''doc''] =
     Inr (Some (pd_DataFrame, [DataframeSchema DefaultConfig, OtherAnnotation ''doc'']))"
    by (simp add: pandas_matched module_startswith_def startswith_def pd_DataFrame_def typing_deps_def
        collect_known_metadata_def)
  have 3: "pandas_prepare_pydantic_annotations typing_deps pd_DataFrame
       [OtherAnnotation ''doc'', DataframeSchema (CustomConfig ''columns'')] =
     Inr (Some (pd_DataFrame, [OtherAnnotation ''doc'', DataframeSchema (CustomConfig ''columns'')]))"
    by (simp add: pandas_matched module_startswith_def startswith_def pd_DataFrame_def typing_deps_def
        collect_known_metadata_def)
  show ?thesis using 1 3 pandas_idempotent[OF 1] by simp
qed

text \<open>
  C7 as stated fails where the input holds engine-known metadata next to a DataframeSchema:
  the list does not pass through unchanged, the engine-known entry is gone from the result.
\<close>

theorem pandas_passes_through_counterexample:
  "pandas_prepare_pydantic_annotations typing_deps pd_DataFrame
       [KnownMetadata ''strict'', DataframeSchema DefaultConfig] =
     Inr (Some (pd_DataFrame, [DataframeSchema DefaultConfig]))
   \<and> [DataframeSchema DefaultConfig] \<noteq> [KnownMetadata ''strict'', DataframeSchema DefaultConfig]"
  by (simp add: pandas_matched module_startswith_def startswith_def pd_DataFrame_def
      typing_deps_def collect_known_metadata_def)

section \<open>Claims about the path handler and the canonical type\<close>






text \<open>
  C3, as amended. For every source type matched by the dataframe handler, the canonical type
  returned is the origin that \<^verbatim>\<open>get_origin\<close> extracts from the source type, a subclass
  of DataFrame. It is the source type itself only where \<^verbatim>\<open>get_origin\<close> returns the
  source unchanged.
\<close>

theorem pandas_returns_origin:
  assumes "pandas_prepare_pydantic_annotations D source annotations = Inr (Some (canonical, out))"
  shows "canonical = get_origin D source \<and> issubclass canonical pd_DataFrame = Inr True"
  using assms by (simp add: pandas_matched)

theorem pandas_returns_origin_witness:
  "pandas_prepare_pydantic_annotations typing_deps TypedFrame_int [] =
     Inr (Some (TypedFrame, [DataframeSchema DefaultConfig]))
   \<and> TypedFrame = get_origin typing_deps TypedFrame_int
   \<and> issubclass TypedFrame pd_DataFrame = Inr True"
proof -
  have 1: "pandas_prepare_pydantic_annotations typing_deps TypedFrame_int [] =
     Inr (Some (TypedFrame, [DataframeSchema DefaultConfig]))"
    by (simp add: pandas_matched module_startswith_def startswith_def pd_DataFrame_def typing_deps_def
        collect_known_metadata_def TypedFrame_int_def TypedFrame_def)
  show ?thesis using 1 pandas_returns_origin[OF 1] by simp
qed

text \<open>
  C3 as stated fails on a parametrized dataframe type: for \<^verbatim>\<open>TypedFrame[int]\<close> the
  handler returns the unwrapped class \<^verbatim>\<open>TypedFrame\<close>, not the source.
\<close>

theorem pandas_returns_source_counterexample:
  "pandas_prepare_pydantic_annotations typing_deps TypedFrame_int [] =
     Inr (Some (TypedFrame, [DataframeSchema DefaultConfig]))
   \<and> TypedFrame \<noteq> TypedFrame_int"
  by (simp add: pandas_matched module_startswith_def startswith_def pd_DataFrame_def typing_deps_def
      collect_known_metadata_def TypedFrame_int_def TypedFrame_def)


section \<open>Which exceptions leave a handler\<close>

lemma issubclass_library:
  "is_class c \<Longrightarrow> issubclass x c = Inl e \<longleftrightarrow> e = TypeError \<and> \<not> is_class x"
  by (cases x; cases c) auto

lemma library_classes [simp]:
  "is_class torch_Tensor" "is_class tf_Tensor" "is_class pd_DataFrame" "is_class Image_Image"
  by (simp_all add: torch_Tensor_def tf_Tensor_def pd_DataFrame_def Image_Image_def)

text \<open>The module test raises exactly when the attribute holds None, and then AttributeError.\<close>

lemma module_startswith_raises:
  "module_startswith source p = Inl e \<longleftrightarrow> e = AttributeError \<and> py_module source = NoneValue"
  by (cases "py_module source") (auto simp: module_startswith_def)

lemma module_startswith_returns:
  "module_startswith source p = Inr b \<Longrightarrow> py_module source \<noteq> NoneValue"
  by (cases "py_module source") (auto simp: module_startswith_def)

lemma numpy_raises:
  assumes "numpy_prepare_pydantic_annotations D source annotations = Inl e"
  shows "(e = AttributeError \<and> py_module source = NoneValue) \<or>
         (element_dtype D (get_args D source) = Inl e \<and> e \<noteq> TypeError) \<or>
         (\<exists>x y. x \<noteq> y \<and> e = ValueError (conflict_message x y))"
proof (cases "module_startswith source ''numpy''")
  case (Inl e')
  then have "e = e'" using assms by (simp add: numpy_prepare_pydantic_annotations_def)
  then show ?thesis using Inl module_startswith_raises[of source "''numpy''" e'] by simp
next
  case (Inr b)
  then have b: "b" and o: "get_origin D source = np_ndarray"
    using assms
    by (auto simp: numpy_prepare_pydantic_annotations_def split: bool.splits if_splits)
  show ?thesis
  proof (cases "element_dtype D (get_args D source)")
    case (Inl e')
    then show ?thesis using assms Inr b o
      by (cases e') (auto simp: numpy_prepare_pydantic_annotations_def)
  next
    case (Inr dtype)
    then have "numpy_scan (snd (collect_known_metadata annotations)) dtype None [] = Inl e"
      using assms \<open>module_startswith source ''numpy'' = Inr b\<close> b o
      by (auto simp: numpy_prepare_pydantic_annotations_def split: sum.splits)
    from numpy_scan_error[OF this] show ?thesis by blast
  qed
qed

lemma torch_raises:
  "torch_prepare_pydantic_annotations D source annotations = Inl e \<longleftrightarrow>
     (e = AttributeError \<and> py_module source = NoneValue) \<or>
     (e = TypeError \<and> module_startswith source ''torch'' = Inr True \<and>
      \<not> is_class (get_origin D source))"
proof (cases "module_startswith source ''torch''")
  case (Inl e')
  then show ?thesis using module_startswith_raises[of source "''torch''" e']
    by (auto simp: torch_prepare_pydantic_annotations_def)
next
  case (Inr b)
  then show ?thesis
    using module_startswith_returns[OF Inr]
      issubclass_library[of torch_Tensor "get_origin D source" e]
    by (cases b)
      (auto simp: torch_prepare_pydantic_annotations_def tensor_body_eq
        split: sum.splits bool.splits)
qed

lemma tf_raises:
  "tf_prepare_pydantic_annotations D source annotations = Inl e \<longleftrightarrow>
     (e = AttributeError \<and> py_module source = NoneValue) \<or>
     (e = TypeError \<and> module_startswith source ''tensorflow'' = Inr True \<and>
      \<not> is_class (get_origin D source))"
proof (cases "module_startswith source ''tensorflow''")
  case (Inl e')
  then show ?thesis using module_startswith_raises[of source "''tensorflow''" e']
    by (auto simp: tf_prepare_pydantic_annotations_def)
next
  case (Inr b)
  then show ?thesis
    using module_startswith_returns[OF Inr]
      issubclass_library[of tf_Tensor "get_origin D source" e]
    by (cases b)
      (auto simp: tf_prepare_pydantic_annotations_def tensor_body_eq
        split: sum.splits bool.splits)
qed

lemma pandas_raises:
  "pandas_prepare_pydantic_annotations D source annotations = Inl e \<longleftrightarrow>
     (e = AttributeError \<and> py_module source = NoneValue) \<or>
     (e = TypeError \<and> module_startswith source ''pandas'' = Inr True \<and>
      \<not> is_class (get_origin D source))"
proof (cases "module_startswith source ''pandas''")
  case (Inl e')
  then show ?thesis using module_startswith_raises[of source "''pandas''" e']
    by (auto simp: pandas_prepare_pydantic_annotations_def)
next
  case (Inr b)
  then show ?thesis
    using module_startswith_returns[OF Inr]
      issubclass_library[of pd_DataFrame "get_origin D source" e]
    by (cases b)
      (auto simp: pandas_prepare_pydantic_annotations_def Let_def
        split: sum.splits bool.splits)
qed

lemma pil_raises:
  "pil_prepare_pydantic_annotations D source annotations = Inl e \<longleftrightarrow>
     (e = AttributeError \<and> py_module source = NoneValue) \<or>
     (e = TypeError \<and> module_startswith source ''PIL.'' = Inr True \<and>
      \<not> is_class (if truthy (get_origin D source) then get_origin D source else source))"
proof (cases "module_startswith source ''PIL.''")
  case (Inl e')
  then show ?thesis using module_startswith_raises[of source "''PIL.''" e']
    by (auto simp: pil_prepare_pydantic_annotations_def)
next
  case (Inr b)
  define origin where
    "origin = (if truthy (get_origin D source) then get_origin D source else source)"
  have "pil_prepare_pydantic_annotations D source annotations = Inl e \<longleftrightarrow>
      b \<and> issubclass origin Image_Image = Inl e"
    using Inr unfolding origin_def
    by (cases b)
      (auto simp: pil_prepare_pydantic_annotations_def Let_def split: sum.splits bool.splits)
  then show ?thesis
    using Inr module_startswith_returns[OF Inr] issubclass_library[of Image_Image origin e]
    unfolding origin_def by auto
qed

lemma pathlib_raises:
  "pathlib_prepare_pydantic_annotations source annotations = Inl e \<longleftrightarrow>
     e = TypeError \<and> \<not> hashable source"
proof (cases "hashable source")
  case False
  then show ?thesis by (auto simp: pathlib_prepare_pydantic_annotations_def)
next
  case True
  show ?thesis
  proof (cases "source \<in> set path_types")
    case True
    then show ?thesis using pathlib_matched[OF True] path_types_hashable[OF True] by simp
  next
    case False
    then show ?thesis using True by (simp add: pathlib_prepare_pydantic_annotations_def)
  qed
qed

text \<open>
  C9, as amended. The dtype-conflict ValueError is not the only exception that leaves a
  handler. On source objects as described above (the \<^verbatim>\<open>__module__\<close> attribute absent,
  None or a string; \<^verbatim>\<open>get_origin\<close>, \<^verbatim>\<open>get_args\<close> and the engine's metadata
  collection returning normally; the optional libraries importable):
  every family handler raises AttributeError when the source's \<^verbatim>\<open>__module__\<close> is
  None; the torch, tensorflow, dataframe and image handlers raise TypeError when the module is
  in their namespace and the object handed to \<^verbatim>\<open>issubclass\<close> is not a class, and they
  raise in no other case; the path handler raises TypeError when the source is unhashable, and
  in no other case; the numeric-array handler raises, besides the AttributeError and whatever
  element-type extraction raises other than TypeError, only the dtype-conflict ValueError.
  Wherever no exception is raised the handler returns a result or None.
\<close>

theorem handler_exceptions:
  "(numpy_prepare_pydantic_annotations D source annotations = Inl e \<longrightarrow>
      (e = AttributeError \<and> py_module source = NoneValue) \<or>
      (element_dtype D (get_args D source) = Inl e \<and> e \<noteq> TypeError) \<or>
      (\<exists>x y. x \<noteq> y \<and> e = ValueError (conflict_message x y)))
   \<and> (torch_prepare_pydantic_annotations D source annotations = Inl e \<longleftrightarrow>
        (e = AttributeError \<and> py_module source = NoneValue) \<or>
        (e = TypeError \<and> module_startswith source ''torch'' = Inr True \<and>
         \<not> is_class (get_origin D source)))
   \<and> (tf_prepare_pydantic_annotations D source annotations = Inl e \<longleftrightarrow>
        (e = AttributeError \<and> py_module source = NoneValue) \<or>
        (e = TypeError \<and> module_startswith source ''tensorflow'' = Inr True \<and>
         \<not> is_class (get_origin D source)))
   \<and> (pandas_prepare_pydantic_annotations D source annotations = Inl e \<longleftrightarrow>
        (e = AttributeError \<and> py_module source = NoneValue) \<or>
        (e = TypeError \<and> module_startswith source ''pandas'' = Inr True \<and>
         \<not> is_class (get_origin D source)))
   \<and> (pil_prepare_pydantic_annotations D source annotations = Inl e \<longleftrightarrow>
        (e = AttributeError \<and> py_module source = NoneValue) \<or>
        (e = TypeError \<and> module_startswith source ''PIL.'' = Inr True \<and>
         \<not> is_class (if truthy (get_origin D source) then get_origin D source else source)))
   \<and> (pathlib_prepare_pydantic_annotations source annotations = Inl e \<longleftrightarrow>
        e = TypeError \<and> \<not> hashable source)
   \<and> (py_module source = NoneValue \<longrightarrow>
        numpy_prepare_pydantic_annotations D source annotations = Inl AttributeError)"
proof (intro conjI)
  show "numpy_prepare_pydantic_annotations D source annotations = Inl e \<longrightarrow>
      (e = AttributeError \<and> py_module source = NoneValue) \<or>
      (element_dtype D (get_args D source) = Inl e \<and> e \<noteq> TypeError) \<or>
      (\<exists>x y. x \<noteq> y \<and> e = ValueError (conflict_message x y))"
    by (rule impI) (erule numpy_raises)
  show "py_module source = NoneValue \<longrightarrow>
        numpy_prepare_pydantic_annotations D source annotations = Inl AttributeError"
    by (simp add: numpy_prepare_pydantic_annotations_def module_startswith_def)
qed (rule torch_raises tf_raises pandas_raises pil_raises pathlib_raises)+

theorem handler_exceptions_witness:
  "numpy_prepare_pydantic_annotations typing_deps NDArray_float32 [DType ''int8''] =
     Inl (ValueError (conflict_message ''float32'' ''int8''))
   \<and> element_dtype typing_deps (get_args typing_deps NDArray_float32) = Inr (Some ''float32'')
   \<and> torch_prepare_pydantic_annotations typing_deps torch_relu [] = Inl TypeError
   \<and> module_startswith torch_relu ''torch'' = Inr True
   \<and> \<not> is_class (get_origin typing_deps torch_relu)
   \<and> (\<exists>x y. x \<noteq> y \<and>
        ValueError (conflict_message ''float32'' ''int8'') = ValueError (conflict_message x y))
   \<and> py_module str_join = NoneValue
   \<and> numpy_prepare_pydantic_annotations typing_deps str_join [] = Inl AttributeError
   \<and> pandas_prepare_pydantic_annotations typing_deps str_join [] = Inl AttributeError"
proof -
  have 1: "numpy_prepare_pydantic_annotations typing_deps NDArray_float32 [DType ''int8''] =
     Inl (ValueError (conflict_message ''float32'' ''int8''))"
    by (simp add: numpy_prepare_pydantic_annotations_def NDArray_float32_facts
        collect_known_metadata_def)
  have 2: "torch_prepare_pydantic_annotations typing_deps torch_relu [] = Inl TypeError"
    by (simp add: torch_prepare_pydantic_annotations_def torch_relu_def module_startswith_def
        startswith_def typing_deps_def torch_Tensor_def)
  have 4: "py_module str_join = NoneValue" by (simp add: str_join_def)
  have m: "py_module NDArray_float32 \<noteq> NoneValue"
    by (simp add: NDArray_float32_def np_ndarray_def)
  note N = handler_exceptions[of typing_deps NDArray_float32 "[DType ''int8'']"
        "ValueError (conflict_message ''float32'' ''int8'')", THEN conjunct1, rule_format, OF 1]
  note T = handler_exceptions[of typing_deps torch_relu "[]" TypeError,
        THEN conjunct2, THEN conjunct1, THEN iffD1, OF 2]
  note H = handler_exceptions[of typing_deps str_join "[]" AttributeError]
  have 5: "numpy_prepare_pydantic_annotations typing_deps str_join [] = Inl AttributeError"
    using H 4 by (elim conjE) simp
  have 6: "pandas_prepare_pydantic_annotations typing_deps str_join [] = Inl AttributeError"
    using H 4 by (elim conjE) simp
  have 3: "\<exists>x y. x \<noteq> y \<and>
        ValueError (conflict_message ''float32'' ''int8'') = ValueError (conflict_message x y)"
    using N NDArray_float32_facts(3) m by simp
  have 7: "module_startswith torch_relu ''torch'' = Inr True"
      "\<not> is_class (get_origin typing_deps torch_relu)"
    using T by simp_all
  show ?thesis using 1 2 3 4 5 6 7 NDArray_float32_facts(3) by simp
qed

text \<open>
  C9 as stated fails: the function \<^verbatim>\<open>torch.nn.functional.relu\<close> lives in the torch
  namespace and is not a class, and the torch handler raises TypeError on it instead of
  returning None; the method \<^verbatim>\<open>join\<close> of a string has \<^verbatim>\<open>__module__\<close> None, and
  the numeric-array handler raises AttributeError on it.
\<close>

theorem handler_exceptions_counterexample:
  "torch_prepare_pydantic_annotations typing_deps torch_relu [] = Inl TypeError
   \<and> numpy_prepare_pydantic_annotations typing_deps str_join [] = Inl AttributeError"
  by (simp add: torch_prepare_pydantic_annotations_def numpy_prepare_pydantic_annotations_def
      torch_relu_def str_join_def module_startswith_def startswith_def typing_deps_def
      torch_Tensor_def)

section \<open>Where the code departs from the claims\<close>

text \<open>
  C2. With two Shape and two DType annotations the torch and tensorflow handlers remove all
  four, and keep the values of the earlier (lower-index) ones: the reverse scan assigns the
  later annotation first and overwrites it with the earlier one (lemma \<open>tensor_body_eq\<close>
  gives the general form). The numeric-array handler scans forward and keeps the last Shape.
\<close>

theorem tensor_handlers_keep_first_declared:
  "torch_prepare_pydantic_annotations typing_deps torch_Tensor
       [Shape [1, 2], DType ''float32'', Shape [3, 4], DType ''int8''] =
     Inr (Some (torch_Tensor, [TensorSchema ''torch-tensor'' (Some ''float32'') (Some [1, 2])]))
   \<and> tf_prepare_pydantic_annotations typing_deps tf_Tensor
       [Shape [1, 2], DType ''float32'', Shape [3, 4], DType ''int8''] =
     Inr (Some (tf_Tensor, [TensorSchema ''tf-tensor'' (Some ''float32'') (Some [1, 2])]))"
  by (simp add: torch_prepare_pydantic_annotations_def tf_prepare_pydantic_annotations_def
      module_startswith_def startswith_def typing_deps_def torch_Tensor_def tf_Tensor_def tensor_body_eq
      collect_known_metadata_def)

text \<open>
  C4. For \<^verbatim>\<open>np.ndarray[Any, np.float32]\<close>, whose second argument has no arguments of
  its own, and for an ndarray type with a single argument, element-type extraction raises
  IndexError; the handler catches TypeError only, so the exception leaves the handler.
\<close>

theorem numpy_extraction_index_error:
  "numpy_prepare_pydantic_annotations typing_deps ndarray_Any_float32 [] = Inl IndexError
   \<and> numpy_prepare_pydantic_annotations typing_deps (PyAlias np_ndarray [typing_Any]) [] =
       Inl IndexError"
  by (simp add: numpy_prepare_pydantic_annotations_def ndarray_Any_float32_def module_startswith_def startswith_def
      typing_deps_def np_ndarray_def element_dtype_def np_float32_def)

end
